theory Spec2Isabelle
  imports
    Main
    "HOL-Library.Sublist"
    "HOL-Library.Char_ord"
    "HOL-Library.List_Lexorder"
    "HOL-Library.AList"
begin

section \<open>Python strings\<close>

text \<open>
  The matcher of \<^verbatim>\<open>app.py\<close> works on survey text. A Python \<^verbatim>\<open>str\<close> is modelled as a
  \<^typ>\<open>string\<close> of ASCII characters: \<^verbatim>\<open>str.lower\<close> and \<^verbatim>\<open>str.capitalize\<close> act on the 26
  letters and leave every other character alone, \<^verbatim>\<open>str.strip\<close> removes the ASCII characters
  for which \<^verbatim>\<open>str.isspace\<close> holds (tab, line feed, vertical tab, form feed, carriage return,
  the four separators \<^verbatim>\<open>\x1c\<close> to \<^verbatim>\<open>\x1f\<close> and the space), and strings are compared
  character by character, by code, as \<^verbatim>\<open>sorted\<close> does.
\<close>

definition isspace :: "char \<Rightarrow> bool" where
  "isspace c =
     (c \<in> set [CHR 0x09, CHR 0x0A, CHR 0x0B, CHR 0x0C, CHR 0x0D,
               CHR 0x1C, CHR 0x1D, CHR 0x1E, CHR 0x1F, CHR '' ''])"

definition lower_char :: "char \<Rightarrow> char" where
  "lower_char c =
     (case map_of (zip ''ABCDEFGHIJKLMNOPQRSTUVWXYZ'' ''abcdefghijklmnopqrstuvwxyz'') c of
        Some l \<Rightarrow> l
      | None \<Rightarrow> c)"

definition upper_char :: "char \<Rightarrow> char" where
  "upper_char c =
     (case map_of (zip ''abcdefghijklmnopqrstuvwxyz'' ''ABCDEFGHIJKLMNOPQRSTUVWXYZ'') c of
        Some u \<Rightarrow> u
      | None \<Rightarrow> c)"

definition lower :: "string \<Rightarrow> string" where
  "lower s = map lower_char s"

definition capitalize :: "string \<Rightarrow> string" where
  "capitalize s = (case s of [] \<Rightarrow> [] | c # cs \<Rightarrow> upper_char c # map lower_char cs)"

definition strip :: "string \<Rightarrow> string" where
  "strip s = rev (dropWhile isspace (rev (dropWhile isspace s)))"

text \<open>
  \<^verbatim>\<open>s.split(",")\<close>: the pieces between the separators, empty pieces included; the empty
  string gives one empty piece. The result is never empty, so the last case of the inner
  \<^verbatim>\<open>case\<close> is never taken.
\<close>

fun split :: "char \<Rightarrow> string \<Rightarrow> string list" where
  "split sep [] = [[]]"
| "split sep (c # cs) =
     (if c = sep then [] # split sep cs
      else (case split sep cs of w # ws \<Rightarrow> (c # w) # ws | [] \<Rightarrow> [[c]]))"

text \<open>\<^verbatim>\<open>[c.strip().lower() for c in text.split(",") if c.strip()]\<close>, used twice in the source.\<close>

definition names_in :: "string \<Rightarrow> string list" where
  "names_in text = map (\<lambda>c. lower (strip c)) (filter (\<lambda>c. strip c \<noteq> []) (split CHR '','' text))"

section \<open>Cells of the table\<close>

text \<open>
  A cell of the data frame is a string, the float \<^verbatim>\<open>nan\<close> that pandas puts in a blank cell,
  or another scalar (a number), which the model carries by what \<^verbatim>\<open>str\<close> makes of it.
  \<^verbatim>\<open>pd.isna\<close> holds of the blank cell only.
\<close>

datatype cell = Str string | NaN | Other string

fun isna :: "cell \<Rightarrow> bool" where
  "isna NaN = True"
| "isna _ = False"

fun str :: "cell \<Rightarrow> string" where
  "str (Str s) = s"
| "str NaN = ''nan''"
| "str (Other r) = r"

section \<open>The pure helpers\<close>

definition FAITH_STUDIES :: "string list" where
  "FAITH_STUDIES = [''discovery'', ''source'', ''growth'', ''trust'', ''commission'']"

text \<open>
  \<^verbatim>\<open>get_next_faith_study\<close>: the loop over the progression returns at the first study that is
  not in the list of completed names, and \<^verbatim>\<open>None\<close> after the loop.
\<close>

definition get_next_faith_study :: "cell \<Rightarrow> string option" where
  "get_next_faith_study completed =
     (if isna completed then Some (hd FAITH_STUDIES)
      else let completed_lower = names_in (str completed)
           in find (\<lambda>study. study \<notin> set completed_lower) FAITH_STUDIES)"

definition has_led :: "string \<Rightarrow> cell \<Rightarrow> bool" where
  "has_led study led_str =
     (if isna led_str then False
      else let led_lower = names_in (str led_str) in study \<in> set led_lower)"

definition DAYS :: "string list" where
  "DAYS = [''monday'', ''tuesday'', ''wednesday'', ''thursday'', ''friday'', ''saturday'',
           ''sunday'']"

text \<open>
  An availability dictionary maps a slot label to the text of the cell, both strings, and is
  an association list in insertion order. For a string \<^verbatim>\<open>pd.notna\<close> holds and \<^verbatim>\<open>str\<close> is the
  identity, so a slot is kept when the stripped text is not empty and its lower-case form
  contains one of the day names.
\<close>

type_synonym avail_dict = "(string \<times> string) list"

definition available_slots :: "avail_dict \<Rightarrow> string list" where
  "available_slots avail =
     map fst (filter (\<lambda>(slot, val). strip val \<noteq> [] \<and>
       (let value_str = strip val in list_ex (\<lambda>day. sublist day (lower value_str)) DAYS)) avail)"

text \<open>
  \<^verbatim>\<open>set.intersection(*sets)\<close>: the elements of the first set that are in every other one.
  The source calls it on a non-empty list only.
\<close>

fun intersection :: "string list list \<Rightarrow> string list" where
  "intersection [] = []"
| "intersection (s # ss) = filter (\<lambda>x. list_all (\<lambda>b. x \<in> set b) ss) s"

definition find_common_slots :: "avail_dict list \<Rightarrow> string list" where
  "find_common_slots avail_dicts =
     (if avail_dicts = [] then []
      else let person_available_slots = map available_slots avail_dicts
           in if person_available_slots = [] then []
              else sort (remdups (intersection person_available_slots)))"

text \<open>
  The specification's reading of availability: the slots of a person are the labels whose
  text contains a weekday name, whatever the case of the text.
\<close>

definition day_slots :: "avail_dict \<Rightarrow> string set" where
  "day_slots avail =
     {slot. \<exists>val. (slot, val) \<in> set avail \<and> (\<exists>day \<in> set DAYS. sublist day (lower val))}"

section \<open>Persons, groups and the data frame\<close>

text \<open>
  The dictionaries that \<^verbatim>\<open>process_csv_data\<close> builds are records. Both dictionaries have the
  keys \<^verbatim>\<open>id\<close> and \<^verbatim>\<open>gender\<close>, so the fields of a person are prefixed with \<open>p_\<close>, those of
  a group with \<open>g_\<close> and those of an entry of \<^verbatim>\<open>member_details\<close> with \<open>d_\<close>. Fields that
  the source copies from the row unchanged are cells.
\<close>

record person =
  p_id :: string
  p_first :: cell
  p_last :: cell
  p_gender :: string
  p_email :: cell
  p_phone :: cell
  p_year :: cell
  p_program :: cell
  p_religion :: cell
  p_next_study :: "string option"
  p_willing_lead :: bool
  p_already_led :: cell
  p_avail :: avail_dict

record details =
  d_name :: string
  d_email :: cell
  d_phone :: cell
  d_year :: cell
  d_program :: cell

record group =
  g_id :: string
  g_faith_study :: string
  g_gender :: string
  g_leader :: "string option"
  g_members :: "string list"
  g_common_availabilities :: "string list"
  g_member_details :: "(string \<times> details) list"

text \<open>
  A row maps column labels to cells. \<^verbatim>\<open>row.get(label, default)\<close> gives the default for a
  label that the row does not have, \<^verbatim>\<open>row[label]\<close> raises \<^verbatim>\<open>KeyError\<close> there. The labels of a
  frame are distinct, as \<^verbatim>\<open>read_csv\<close> and \<^verbatim>\<open>read_excel\<close> make them.
\<close>

type_synonym row = "(string \<times> cell) list"

record data_frame =
  columns :: "string list"
  rows :: "row list"

datatype error = AttributeError | KeyError

definition row_get :: "row \<Rightarrow> string \<Rightarrow> cell \<Rightarrow> cell" where
  "row_get r label dflt = (case map_of r label of Some v \<Rightarrow> v | None \<Rightarrow> dflt)"

definition row_item :: "row \<Rightarrow> string \<Rightarrow> error + cell" where
  "row_item r label = (case map_of r label of Some v \<Rightarrow> Inr v | None \<Rightarrow> Inl KeyError)"

definition COL_FIRST :: string where
  "COL_FIRST = ''First Name''"

definition COL_LAST :: string where
  "COL_LAST = ''Last Name''"

definition COL_GENDER :: string where
  "COL_GENDER = ''Please indicate your gender.''"

definition COL_EMAIL :: string where
  "COL_EMAIL = ''E-mail Address''"

definition COL_PHONE :: string where
  "COL_PHONE = ''Cell Phone Number''"

definition COL_YEAR :: string where
  "COL_YEAR = ''What year of study are you currently in?''"

definition COL_PROGRAM :: string where
  "COL_PROGRAM = ''What is your program of study?''"

definition COL_RELIGION :: string where
  "COL_RELIGION = ''Which religion/faith do you most identify with?''"

definition COL_COMPLETED :: string where
  "COL_COMPLETED = ''Please indicate which faith studies you've completed.''"

definition COL_WILLING :: string where
  "COL_WILLING = ''Are you willing to lead a Faith Study?''"

definition COL_LED :: string where
  "COL_LED = ''Please indicate which faith studies you have led:''"

section \<open>The normaliser\<close>

text \<open>The decimal form of a number, as an f-string writes it.\<close>

function string_of_nat :: "nat \<Rightarrow> string" where
  "string_of_nat n =
     (if n < 10 then [''0123456789'' ! n]
      else string_of_nat (n div 10) @ [''0123456789'' ! (n mod 10)])"
  by pat_completeness auto
termination
  by (relation "measure (\<lambda>n. n)") auto

declare string_of_nat.simps [simp del]

text \<open>
  The availability columns: every column after the one of the studies led, and without that
  column the labels that contain \<^verbatim>\<open>timeslot\<close> or both brackets (\<^verbatim>\<open>and\<close> binds tighter than
  \<^verbatim>\<open>or\<close>).
\<close>

definition availability_cols :: "string list \<Rightarrow> string list" where
  "availability_cols cols =
     (if COL_LED \<in> set cols then
        (let led_col_index = length (takeWhile (\<lambda>col. col \<noteq> COL_LED) cols)
         in drop (led_col_index + 1) cols)
      else filter (\<lambda>col. sublist ''timeslot'' (lower col) \<or>
                          (CHR ''['' \<in> set col \<and> CHR '']'' \<in> set col)) cols)"

text \<open>
  \<^verbatim>\<open>{col: str(row[col]).strip() for col in availability_cols}\<close>: a dictionary keeps the place
  of a key that is written again, as \<^const>\<open>AList.update\<close> does.
\<close>

fun build_avail :: "row \<Rightarrow> string list \<Rightarrow> avail_dict \<Rightarrow> error + avail_dict" where
  "build_avail r [] acc = Inr acc"
| "build_avail r (col # cols) acc =
     (case row_item r col of
        Inl e \<Rightarrow> Inl e
      | Inr v \<Rightarrow> build_avail r cols (AList.update col (strip (str v)) acc))"

text \<open>
  One pass of the loop over \<^verbatim>\<open>df.iterrows()\<close>, with \<open>n = len(people)\<close>. The gender cell is
  read with \<^verbatim>\<open>row.get(..., "").strip().lower()\<close>: only a string has \<^verbatim>\<open>strip\<close>, and on a
  blank cell or a number the attribute lookup raises. The entries of the dictionary are
  evaluated in the order written, the gender before the availability.
\<close>

definition make_person :: "string list \<Rightarrow> row \<Rightarrow> nat \<Rightarrow> error + person" where
  "make_person avail_cols r n =
     (let next_study = get_next_faith_study (row_get r COL_COMPLETED (Str []))
      in case row_get r COL_GENDER (Str []) of
           Str g \<Rightarrow>
             (case build_avail r avail_cols [] of
                Inl e \<Rightarrow> Inl e
              | Inr av \<Rightarrow> Inr \<lparr>
                  p_id = str (row_get r COL_FIRST (Str [])) @ ''_'' @
                         str (row_get r COL_LAST (Str [])) @ ''_'' @ string_of_nat n,
                  p_first = row_get r COL_FIRST (Str []),
                  p_last = row_get r COL_LAST (Str []),
                  p_gender = lower (strip g),
                  p_email = row_get r COL_EMAIL (Str []),
                  p_phone = row_get r COL_PHONE (Str []),
                  p_year = row_get r COL_YEAR (Str []),
                  p_program = row_get r COL_PROGRAM (Str []),
                  p_religion = row_get r COL_RELIGION (Str []),
                  p_next_study = next_study,
                  p_willing_lead = (lower (strip (str (row_get r COL_WILLING (Str [])))) = ''yes''),
                  p_already_led = row_get r COL_LED (Str []),
                  p_avail = av \<rparr>)
         | _ \<Rightarrow> Inl AttributeError)"

fun make_people :: "string list \<Rightarrow> row list \<Rightarrow> person list \<Rightarrow> error + person list" where
  "make_people avail_cols [] people = Inr people"
| "make_people avail_cols (r # rs) people =
     (case make_person avail_cols r (length people) of
        Inl e \<Rightarrow> Inl e
      | Inr p \<Rightarrow> make_people avail_cols rs (people @ [p]))"

section \<open>The matcher\<close>

text \<open>
  \<^verbatim>\<open>grouped\<close> is a \<^verbatim>\<open>defaultdict(list)\<close> keyed by gender and next study; its items come in the
  order in which the keys were first seen.
\<close>

type_synonym bucket = "(string \<times> string) \<times> person list"

fun add_to_bucket :: "string \<times> string \<Rightarrow> person \<Rightarrow> bucket list \<Rightarrow> bucket list" where
  "add_to_bucket k p [] = [(k, [p])]"
| "add_to_bucket k p ((k', ms) # bs) =
     (if k' = k then (k', ms @ [p]) # bs else (k', ms) # add_to_bucket k p bs)"

fun group_by :: "person list \<Rightarrow> bucket list \<Rightarrow> bucket list" where
  "group_by [] grouped = grouped"
| "group_by (p # ps) grouped =
     group_by ps
       (case p_next_study p of
          Some study \<Rightarrow>
            if study \<noteq> [] \<and> p_gender p \<noteq> [] \<and> strip (p_gender p) \<noteq> []
            then add_to_bucket (p_gender p, study) p grouped
            else grouped
        | None \<Rightarrow> grouped)"

text \<open>\<^verbatim>\<open>itertools.combinations(members, size)\<close>, in the order of the positions.\<close>

fun combinations :: "'a list \<Rightarrow> nat \<Rightarrow> 'a list list" where
  "combinations xs 0 = [[]]"
| "combinations [] (Suc k) = []"
| "combinations (x # xs) (Suc k) = map ((#) x) (combinations xs k) @ combinations xs (Suc k)"

definition choose_leader :: "string \<Rightarrow> person list \<Rightarrow> string option" where
  "choose_leader study combo =
     map_option p_id (find (\<lambda>m. p_willing_lead m \<and> \<not> has_led study (p_already_led m)) combo)"

definition member_details :: "person list \<Rightarrow> (string \<times> details) list" where
  "member_details combo =
     foldl (\<lambda>d m. AList.update (p_id m)
              \<lparr> d_name = str (p_first m) @ '' '' @ str (p_last m),
                d_email = p_email m, d_phone = p_phone m,
                d_year = p_year m, d_program = p_program m \<rparr> d) [] combo"

definition make_group :: "nat \<Rightarrow> string \<Rightarrow> string \<Rightarrow> person list \<Rightarrow> string list \<Rightarrow> group" where
  "make_group group_counter gender study combo common =
     \<lparr> g_id = ''G'' @ string_of_nat group_counter,
       g_faith_study = capitalize study,
       g_gender = capitalize gender,
       g_leader = choose_leader study combo,
       g_members = map p_id combo,
       g_common_availabilities = common,
       g_member_details = member_details combo \<rparr>"

text \<open>
  The loop over the combinations of one size: the first combination with a common slot adds
  a group and leaves that loop (\<^verbatim>\<open>break\<close>); the state is the result list and the counter.
\<close>

definition try_size ::
  "string \<Rightarrow> string \<Rightarrow> person list \<Rightarrow> group list \<times> nat \<Rightarrow> nat \<Rightarrow> group list \<times> nat" where
  "try_size gender study members st sz =
     (case find (\<lambda>combo. find_common_slots (map p_avail combo) \<noteq> [])
                (combinations members sz) of
        None \<Rightarrow> st
      | Some combo \<Rightarrow>
          (fst st @ [make_group (snd st) gender study combo
                       (find_common_slots (map p_avail combo))],
           snd st + 1))"

text \<open>\<^verbatim>\<open>for size in range(5, 1, -1)\<close>: the sizes 5, 4, 3 and 2, for one bucket.\<close>

definition match_bucket :: "bucket \<Rightarrow> group list \<times> nat \<Rightarrow> group list \<times> nat" where
  "match_bucket b st =
     (case b of ((gender, study), members) \<Rightarrow>
        foldl (try_size gender study members) st [5, 4, 3, 2])"

definition match_groups :: "person list \<Rightarrow> group list" where
  "match_groups people = fst (foldl (\<lambda>st b. match_bucket b st) ([], 1) (group_by people []))"

definition process_csv_data :: "data_frame \<Rightarrow> error + (group list \<times> person list)" where
  "process_csv_data df =
     (case make_people (availability_cols (columns df)) (rows df) [] of
        Inl e \<Rightarrow> Inl e
      | Inr people \<Rightarrow> Inr (match_groups people, people))"

section \<open>The upload\<close>

text \<open>
  \<^verbatim>\<open>upload_file\<close> from the point where the file has been read into a frame. A response with
  status 400 carries its message; the response with status 500 carries the exception, whose
  text the source appends to \<^verbatim>\<open>Error processing file:\<close>.
\<close>

datatype upload_response =
  Rejected string
| Failed error
| Success "group list" "person list" nat nat

definition required_columns :: "string list" where
  "required_columns = [COL_FIRST, COL_LAST, COL_GENDER, COL_COMPLETED, COL_WILLING]"

fun join :: "string \<Rightarrow> string list \<Rightarrow> string" where
  "join sep [] = []"
| "join sep [x] = x"
| "join sep (x # y # ys) = x @ sep @ join sep (y # ys)"

definition upload_file :: "data_frame \<Rightarrow> upload_response" where
  "upload_file df =
     (let missing_columns = filter (\<lambda>col. col \<notin> set (columns df)) required_columns
      in if missing_columns \<noteq> []
         then Rejected (''Missing required columns: '' @ join '', '' missing_columns)
         else (case process_csv_data df of
                 Inl e \<Rightarrow> Failed e
               | Inr (groups, people) \<Rightarrow>
                   if people = [] then Rejected ''No valid people found in the data''
                   else Success groups people (length people) (length groups)))"

section \<open>The move validator\<close>

datatype move_response = Invalid string | Valid "string list"

text \<open>
  \<^verbatim>\<open>validate_move\<close> on the five fields of the request. \<^verbatim>\<open>next(..., None)\<close> is the first entry
  with the id. The list \<^verbatim>\<open>to_group_members\<close> is built by a comprehension, and the person is
  appended to that new list.
\<close>

definition validate_move ::
  "string \<Rightarrow> string \<Rightarrow> string \<Rightarrow> group list \<Rightarrow> person list \<Rightarrow> move_response" where
  "validate_move person_id from_group_id to_group_id groups people =
     (case (find (\<lambda>p. p_id p = person_id) people,
            find (\<lambda>g. g_id g = from_group_id) groups,
            find (\<lambda>g. g_id g = to_group_id) groups) of
        (Some person, Some from_group, Some to_group) \<Rightarrow>
          if p_gender person \<noteq> lower (g_gender to_group) \<or>
             p_next_study person \<noteq> Some (lower (g_faith_study to_group))
          then Invalid ''Gender or faith study mismatch''
          else if length (g_members to_group) \<ge> 5
          then Invalid ''Target group is full (max 5 people)''
          else if length (g_members from_group) \<le> 2
          then Invalid ''Source group would be too small (min 2 people)''
          else
            (let to_group_members =
                   filter (\<lambda>p. p_id p \<in> set (g_members to_group)) people @ [person];
                 common_slots = find_common_slots (map p_avail to_group_members)
             in if common_slots = [] then Invalid ''No common availability slots''
                else Valid common_slots)
      | _ \<Rightarrow> Invalid ''Person or group not found'')"

section \<open>Notions used in the statements\<close>


text \<open>
  A combination is acceptable when its members share a slot; a size is feasible for a bucket
  when one of the combinations of that size is acceptable.
\<close>

definition has_common :: "person list \<Rightarrow> bool" where
  "has_common combo = (find_common_slots (map p_avail combo) \<noteq> [])"

definition feasible :: "person list \<Rightarrow> nat \<Rightarrow> bool" where
  "feasible members sz = list_ex has_common (combinations members sz)"




text \<open>A group with the stored list of common slots emptied.\<close>

definition clear_stored :: "group \<Rightarrow> group" where
  "clear_stored g = g\<lparr>g_common_availabilities := []\<rparr>"

section \<open>Example cohorts and tables\<close>

text \<open>
  Six men who are due for the second study; the first five name Monday in their only
  slot. Two groups over them, as a client may send them to the validator.
\<close>

definition mv_person :: "string \<Rightarrow> string \<Rightarrow> person" where
  "mv_person i a =
     \<lparr> p_id = i, p_first = Str i, p_last = Str ''x'', p_gender = ''male'',
       p_email = NaN, p_phone = NaN, p_year = NaN, p_program = NaN, p_religion = NaN,
       p_next_study = Some ''source'', p_willing_lead = False, p_already_led = NaN,
       p_avail = [(''slot [a]'', a)] \<rparr>"

definition mv_people :: "person list" where
  "mv_people = [mv_person ''a'' ''Monday'', (mv_person ''b'' ''Mondays'')\<lparr>p_willing_lead := True\<rparr>,
                mv_person ''c'' ''monday'', mv_person ''d'' ''MONDAY'',
                mv_person ''e'' ''Friday, Monday'', mv_person ''f'' ''never'']"

definition mv_group :: "string \<Rightarrow> string list \<Rightarrow> string list \<Rightarrow> group" where
  "mv_group i ms stored =
     \<lparr> g_id = i, g_faith_study = ''Source'', g_gender = ''Male'', g_leader = None,
       g_members = ms, g_common_availabilities = stored, g_member_details = [] \<rparr>"

definition mv_groups :: "group list" where
  "mv_groups = [mv_group ''G1'' [''a'', ''b'', ''c''] [''slot [a]''],
                mv_group ''G2'' [''d'', ''e''] [''slot [a]'']]"

text \<open>
  A table with the required columns, the column of the studies led and one slot column; a
  table in which the second row has a blank gender cell; a table whose only respondent has
  completed all five studies, and the person made from that row; a table without rows.
\<close>

definition survey_columns :: "string list" where
  "survey_columns =
     [COL_FIRST, COL_LAST, COL_GENDER, COL_COMPLETED, COL_WILLING, COL_LED, ''Timeslot [a]'']"

definition survey_row :: "string \<Rightarrow> cell \<Rightarrow> cell \<Rightarrow> row" where
  "survey_row first gender completed =
     [(COL_FIRST, Str first), (COL_LAST, Str ''x''), (COL_GENDER, gender),
      (COL_COMPLETED, completed), (COL_WILLING, Str ''Yes''), (COL_LED, NaN),
      (''Timeslot [a]'', Str ''Mondays'')]"

definition blank_gender_frame :: data_frame where
  "blank_gender_frame =
     \<lparr> columns = survey_columns,
       rows = [survey_row ''ann'' (Str ''Female'') NaN, survey_row ''bob'' NaN NaN] \<rparr>"

definition finished_frame :: data_frame where
  "finished_frame =
     \<lparr> columns = survey_columns,
       rows = [survey_row ''ann'' (Str ''Female'')
                 (Str ''Discovery, Source, Growth, Trust, Commission'')] \<rparr>"

definition finished_person :: person where
  "finished_person =
     \<lparr> p_id = ''ann_x_0'', p_first = Str ''ann'', p_last = Str ''x'', p_gender = ''female'',
       p_email = Str [], p_phone = Str [], p_year = Str [], p_program = Str [],
       p_religion = Str [], p_next_study = None, p_willing_lead = True, p_already_led = NaN,
       p_avail = [(''Timeslot [a]'', ''Mondays'')] \<rparr>"

definition empty_frame :: data_frame where
  "empty_frame = \<lparr> columns = survey_columns, rows = [] \<rparr>"

section \<open>Strings: case, white space and commas\<close>

lemma isspace_lower_char: "isspace (lower_char c) = isspace c"
  by (auto simp: isspace_def lower_char_def split: option.splits if_splits)

lemma lower_strip: "lower (strip s) = strip (lower s)"
  by (simp add: lower_def strip_def rev_map dropWhile_map comp_def isspace_lower_char)




lemma strip_Nil: "strip [] = []"
  by (simp add: strip_def)












section \<open>The next study\<close>



section \<open>Common slots\<close>

lemma sublist_drop_prefix:
  assumes "xs \<noteq> []" and "\<forall>c \<in> set xs. \<not> P c" and "\<forall>c \<in> set ws. P c"
  shows "sublist xs (ws @ ys) \<longleftrightarrow> sublist xs ys"
  using assms(3)
proof (induction ws)
  case Nil
  then show ?case by simp
next
  case (Cons w ws)
  from assms(1) obtain x xs' where xs: "xs = x # xs'" by (cases xs) auto
  with assms(2) have "\<not> P x" by simp
  with Cons.prems have "x \<noteq> w" by auto
  then have "\<not> prefix xs (w # ws @ ys)" by (simp add: xs)
  with Cons show ?case by (simp add: sublist_Cons_right)
qed

lemma sublist_dropWhile:
  assumes "xs \<noteq> []" and "\<forall>c \<in> set xs. \<not> P c"
  shows "sublist xs (dropWhile P ys) \<longleftrightarrow> sublist xs ys"
proof -
  have "sublist xs (takeWhile P ys @ dropWhile P ys) \<longleftrightarrow> sublist xs (dropWhile P ys)"
    by (rule sublist_drop_prefix [OF assms]) (auto dest: set_takeWhileD)
  then show ?thesis by simp
qed

lemma sublist_strip:
  assumes "xs \<noteq> []" and "\<forall>c \<in> set xs. \<not> isspace c"
  shows "sublist xs (strip ys) \<longleftrightarrow> sublist xs ys"
proof -
  have r: "rev xs \<noteq> []" "\<forall>c \<in> set (rev xs). \<not> isspace c" using assms by auto
  have "sublist xs (strip ys) \<longleftrightarrow> sublist (rev xs) (dropWhile isspace (rev (dropWhile isspace ys)))"
    unfolding strip_def by (metis sublist_rev rev_rev_ident)
  also have "\<dots> \<longleftrightarrow> sublist (rev xs) (rev (dropWhile isspace ys))"
    by (rule sublist_dropWhile [OF r])
  also have "\<dots> \<longleftrightarrow> sublist xs (dropWhile isspace ys)" by (simp add: sublist_rev)
  also have "\<dots> \<longleftrightarrow> sublist xs ys" by (rule sublist_dropWhile [OF assms])
  finally show ?thesis .
qed

lemma DAYS_plain: "day \<in> set DAYS \<Longrightarrow> day \<noteq> [] \<and> (\<forall>c \<in> set day. \<not> isspace c)"
  by (auto simp: DAYS_def isspace_def)

lemma day_in_strip:
  assumes "day \<in> set DAYS"
  shows "sublist day (lower (strip v)) \<longleftrightarrow> sublist day (lower v)"
  using DAYS_plain [OF assms] by (simp add: lower_strip sublist_strip)

lemma day_strip_nonempty:
  assumes "day \<in> set DAYS" and "sublist day (lower v)"
  shows "strip v \<noteq> []"
proof
  assume "strip v = []"
  then have "sublist day (lower (strip v)) \<longleftrightarrow> day = []" by (simp add: lower_def)
  with assms DAYS_plain [OF assms(1)] show False by (simp add: day_in_strip)
qed

lemma set_available_slots: "set (available_slots d) = day_slots d"
proof -
  have "(strip v \<noteq> [] \<and> (\<exists>day \<in> set DAYS. sublist day (lower (strip v))))
          \<longleftrightarrow> (\<exists>day \<in> set DAYS. sublist day (lower v))" for v
    using day_in_strip day_strip_nonempty by blast
  then show ?thesis
    by (force simp: available_slots_def day_slots_def list_ex_iff Let_def)
qed

lemma set_intersection: "ss \<noteq> [] \<Longrightarrow> set (intersection ss) = (\<Inter>s \<in> set ss. set s)"
  by (cases ss) (auto simp: list_all_iff)

lemma set_find_common_slots:
  "ds \<noteq> [] \<Longrightarrow> set (find_common_slots ds) = (\<Inter>d \<in> set ds. day_slots d)"
  by (simp add: find_common_slots_def Let_def set_intersection set_available_slots)

lemma sorted_find_common_slots: "sorted (find_common_slots ds) \<and> distinct (find_common_slots ds)"
  by (simp add: find_common_slots_def Let_def)

text \<open>
  C7. \<^verbatim>\<open>find_common_slots\<close> of the empty list is empty. Of a non-empty list of availability
  dictionaries it holds exactly the slots that are, for every person, among the slots whose
  text contains a weekday name in any case; it is therefore within the slots of each person,
  and the list is sorted, without repetition.
\<close>

theorem find_common_slots_spec:
  "find_common_slots [] = [] \<and>
   (ds \<noteq> [] \<longrightarrow> set (find_common_slots ds) = (\<Inter>d \<in> set ds. day_slots d)) \<and>
   (\<forall>d \<in> set ds. set (find_common_slots ds) \<subseteq> day_slots d) \<and>
   sorted (find_common_slots ds) \<and> distinct (find_common_slots ds)"
proof -
  have "find_common_slots [] = []" by (simp add: find_common_slots_def)
  moreover have "\<forall>d \<in> set ds. set (find_common_slots ds) \<subseteq> day_slots d"
    using set_find_common_slots [of ds] by (cases "ds = []") auto
  ultimately show ?thesis
    using set_find_common_slots sorted_find_common_slots by blast
qed

theorem find_common_slots_spec_witness:
  "set (find_common_slots [[(''b'', ''Mondays''), (''a'', '' fridays '')],
                           [(''a'', ''TUESDAY''), (''b'', ''nan''), (''c'', ''Monday'')]])
     \<subseteq> day_slots [(''b'', ''Mondays''), (''a'', '' fridays '')] \<and>
   find_common_slots [[(''b'', ''Mondays''), (''a'', '' fridays '')],
                      [(''a'', ''TUESDAY''), (''b'', ''nan''), (''c'', ''Monday'')]] = [''a'']"
proof -
  have "find_common_slots [[(''b'', ''Mondays''), (''a'', '' fridays '')],
                      [(''a'', ''TUESDAY''), (''b'', ''nan''), (''c'', ''Monday'')]] = [''a'']"
    by code_simp
  with find_common_slots_spec [of "[[(''b'', ''Mondays''), (''a'', '' fridays '')],
                      [(''a'', ''TUESDAY''), (''b'', ''nan''), (''c'', ''Monday'')]]"]
  show ?thesis by simp
qed

section \<open>The groups that the matcher emits\<close>


lemma combinations_props:
  "c \<in> set (combinations xs k) \<Longrightarrow> length c = k \<and> set c \<subseteq> set xs"
  by (induction xs k arbitrary: c rule: combinations.induct) fastforce+

lemma combinations_first: "k \<le> length xs \<Longrightarrow> \<exists>more. combinations xs k = take k xs # more"
proof (induction xs k rule: combinations.induct)
  case (1 xs)
  then show ?case by simp
next
  case (2 k)
  then show ?case by simp
next
  case (3 x xs k)
  then have "k \<le> length xs" by simp
  with 3 obtain more where "combinations xs k = take k xs # more" by blast
  then show ?case by simp
qed









lemma c3_groups:
  "map g_members (match_groups (take 3 mv_people)) = [[''a'', ''b'', ''c''], [''a'', ''b'']] \<and>
   map g_id (match_groups (take 3 mv_people)) = [''G1'', ''G2''] \<and>
   map g_leader (match_groups (take 3 mv_people)) = [Some ''b'', Some ''b'']"
  by code_simp


text \<open>
  C10. The groups of one run need not be disjoint: there is a cohort for which two groups
  with different ids have a member in common.
\<close>

theorem groups_share_members:
  "\<exists>people g1 g2.
     g1 \<in> set (match_groups people) \<and> g2 \<in> set (match_groups people) \<and>
     g_id g1 \<noteq> g_id g2 \<and> set (g_members g1) \<inter> set (g_members g2) \<noteq> {}"
proof -
  obtain g1 g2 where gs: "match_groups (take 3 mv_people) = [g1, g2]"
    using c3_groups by (cases "match_groups (take 3 mv_people)" rule: list.exhaust)
      (auto simp: length_Suc_conv)
  with c3_groups have "g_id g1 \<noteq> g_id g2" "set (g_members g1) \<inter> set (g_members g2) \<noteq> {}"
    by auto
  with gs show ?thesis
    by (intro exI [of _ "take 3 mv_people"] exI [of _ g1] exI [of _ g2]) simp
qed

theorem groups_share_members_witness:
  "map g_members (match_groups (take 3 mv_people)) = [[''a'', ''b'', ''c''], [''a'', ''b'']] \<and>
   (\<exists>people g1 g2.
      g1 \<in> set (match_groups people) \<and> g2 \<in> set (match_groups people) \<and>
      g_id g1 \<noteq> g_id g2 \<and> set (g_members g1) \<inter> set (g_members g2) \<noteq> {})"
  using groups_share_members c3_groups by blast

section \<open>One group for each size\<close>

lemma try_size_sizes:
  "\<exists>new. try_size gender study members st sz = (fst st @ new, snd st + length new) \<and>
          map (\<lambda>g. length (g_members g)) new = filter (feasible members) [sz]"
proof (cases "find (\<lambda>combo. find_common_slots (map p_avail combo) \<noteq> []) (combinations members sz)")
  case None
  then have "\<not> feasible members sz"
    by (auto simp: feasible_def has_common_def list_ex_iff find_None_iff)
  with None show ?thesis by (simp add: try_size_def)
next
  case (Some combo)
  then have c: "combo \<in> set (combinations members sz)"
    and s: "find_common_slots (map p_avail combo) \<noteq> []"
    by (auto simp: find_Some_iff)
  then have f: "feasible members sz"
    by (auto simp: feasible_def has_common_def list_ex_iff)
  from combinations_props [OF c] have "length combo = sz" by simp
  with Some f show ?thesis
    by (intro exI [of _ "[make_group (snd st) gender study combo
          (find_common_slots (map p_avail combo))]"])
      (simp add: try_size_def make_group_def)
qed

lemma foldl_try_size_sizes:
  "\<exists>new. foldl (try_size gender study members) st szs = (fst st @ new, snd st + length new) \<and>
          map (\<lambda>g. length (g_members g)) new = filter (feasible members) szs"
proof (induction szs arbitrary: st)
  case Nil
  then show ?case by simp
next
  case (Cons sz szs)
  obtain n1 where 1: "try_size gender study members st sz = (fst st @ n1, snd st + length n1)"
    and s1: "map (\<lambda>g. length (g_members g)) n1 = filter (feasible members) [sz]"
    using try_size_sizes by blast
  obtain n2 where 2: "foldl (try_size gender study members) (fst st @ n1, snd st + length n1) szs
        = ((fst st @ n1) @ n2, (snd st + length n1) + length n2)"
    and s2: "map (\<lambda>g. length (g_members g)) n2 = filter (feasible members) szs"
    using Cons [of "(fst st @ n1, snd st + length n1)"] by auto
  have "map (\<lambda>g. length (g_members g)) (n1 @ n2) = filter (feasible members) (sz # szs)"
    using s1 s2 by simp
  with 1 2 show ?case
    by (intro exI [of _ "n1 @ n2"]) (simp add: add.assoc)
qed

lemma shared_has_common:
  assumes "combo \<noteq> []" and "\<forall>p \<in> set combo. slot \<in> day_slots (p_avail p)"
  shows "find_common_slots (map p_avail combo) \<noteq> []"
proof -
  have "slot \<in> set (find_common_slots (map p_avail combo))"
    using assms by (simp add: set_find_common_slots)
  then show ?thesis by auto
qed

lemma try_size_shared:
  assumes "0 < sz" and "sz \<le> length members"
    and "\<forall>p \<in> set members. slot \<in> day_slots (p_avail p)"
  shows "try_size gender study members st sz =
           (fst st @ [make_group (snd st) gender study (take sz members)
                        (find_common_slots (map p_avail (take sz members)))], snd st + 1)"
proof -
  from combinations_first [OF assms(2)] obtain more
    where c: "combinations members sz = take sz members # more" by blast
  have "take sz members \<noteq> []" using assms(1,2) by auto
  moreover have "\<forall>p \<in> set (take sz members). slot \<in> day_slots (p_avail p)"
    using assms(3) by (auto dest: in_set_takeD)
  ultimately have "find_common_slots (map p_avail (take sz members)) \<noteq> []"
    by (rule shared_has_common)
  then show ?thesis by (simp add: try_size_def c)
qed

lemma group_by_same:
  assumes "\<forall>p \<in> set ps. p_gender p = gender \<and> p_next_study p = Some study"
    and "study \<noteq> []" and "strip gender \<noteq> []"
  shows "group_by ps [((gender, study), ms)] = [((gender, study), ms @ ps)]"
  using assms(1)
proof (induction ps arbitrary: ms)
  case Nil
  then show ?case by simp
next
  case (Cons p ps)
  from assms(3) have "gender \<noteq> []" using strip_Nil by auto
  with Cons.prems assms(2,3) have "group_by (p # ps) [((gender, study), ms)]
      = group_by ps [((gender, study), ms @ [p])]" by simp
  with Cons show ?case by simp
qed

lemma group_by_one_bucket:
  assumes "\<forall>p \<in> set ps. p_gender p = gender \<and> p_next_study p = Some study"
    and "study \<noteq> []" and "strip gender \<noteq> []" and "ps \<noteq> []"
  shows "group_by ps [] = [((gender, study), ps)]"
proof -
  from assms(4) obtain p rest where ps: "ps = p # rest" by (cases ps) auto
  from assms(3) have "gender \<noteq> []" using strip_Nil by auto
  with assms(1-3) have "group_by ps [] = group_by rest [((gender, study), [p])]"
    by (simp add: ps)
  also have "\<dots> = [((gender, study), [p] @ rest)]"
    using assms(1-3) by (intro group_by_same) (simp_all add: ps)
  finally show ?thesis by (simp add: ps)
qed

text \<open>
  C1, as the code has it. The \<^verbatim>\<open>break\<close> leaves the loop over the combinations of one size,
  and the loop over the sizes goes on: a bucket adds one group for each of the sizes 5, 4, 3
  and 2 that is feasible for it, in that order, so at most four. A cohort of at least five
  eligible people of one gender and one next study who all have one slot in common is one
  bucket and gives four groups, made of its first five, four, three and two people.
\<close>

theorem one_group_per_size:
  "(\<exists>new. match_bucket ((gender, study), members) st = (fst st @ new, snd st + length new) \<and>
          map (\<lambda>g. length (g_members g)) new = filter (feasible members) [5, 4, 3, 2]) \<and>
   (5 \<le> length people \<and>
    (\<forall>p \<in> set people. p_gender p = gender \<and> p_next_study p = Some study) \<and>
    study \<noteq> [] \<and> strip gender \<noteq> [] \<and>
    (\<forall>p \<in> set people. slot \<in> day_slots (p_avail p)) \<longrightarrow>
      group_by people [] = [((gender, study), people)] \<and>
      map g_members (match_groups people) = map (\<lambda>k. map p_id (take k people)) [5, 4, 3, 2])"
proof -
  have a: "\<exists>new. match_bucket ((gender, study), members) st = (fst st @ new, snd st + length new) \<and>
          map (\<lambda>g. length (g_members g)) new = filter (feasible members) [5, 4, 3, 2]"
    unfolding match_bucket_def prod.case by (rule foldl_try_size_sizes)
  have b: "group_by people [] = [((gender, study), people)] \<and>
      map g_members (match_groups people) = map (\<lambda>k. map p_id (take k people)) [5, 4, 3, 2]"
    if len: "5 \<le> length people"
      and key: "\<forall>p \<in> set people. p_gender p = gender \<and> p_next_study p = Some study"
      and ne: "study \<noteq> []" "strip gender \<noteq> []"
      and sh: "\<forall>p \<in> set people. slot \<in> day_slots (p_avail p)"
  proof -
    from len have "people \<noteq> []" by auto
    with key ne have g: "group_by people [] = [((gender, study), people)]"
      by (intro group_by_one_bucket) auto
    have t: "try_size gender study people s k =
           (fst s @ [make_group (snd s) gender study (take k people)
                        (find_common_slots (map p_avail (take k people)))], snd s + 1)"
      if "0 < k" "k \<le> 5" for s k
      using that len sh by (intro try_size_shared) auto
    have "map g_members (match_groups people) = map (\<lambda>k. map p_id (take k people)) [5, 4, 3, 2]"
      by (simp add: match_groups_def g match_bucket_def t make_group_def)
    with g show ?thesis by simp
  qed
  from a b show ?thesis by blast
qed

theorem one_group_per_size_witness:
  "group_by (take 5 mv_people) [] = [((''male'', ''source''), take 5 mv_people)] \<and>
   map g_members (match_groups (take 5 mv_people))
     = [[''a'', ''b'', ''c'', ''d'', ''e''], [''a'', ''b'', ''c'', ''d''], [''a'', ''b'', ''c''],
        [''a'', ''b'']]"
proof -
  have 1: "5 \<le> length (take 5 mv_people)" by (simp add: mv_people_def)
  have 2: "\<forall>p \<in> set (take 5 mv_people). p_gender p = ''male'' \<and> p_next_study p = Some ''source''"
    by (simp add: mv_people_def mv_person_def)
  have 3: "''source'' \<noteq> []" "strip ''male'' \<noteq> []" by (simp_all add: strip_def isspace_def)
  have 4: "\<forall>p \<in> set (take 5 mv_people). ''slot [a]'' \<in> day_slots (p_avail p)"
    unfolding set_available_slots [symmetric] by code_simp
  have 5: "map (\<lambda>k. map p_id (take k (take 5 mv_people))) [5, 4, 3, 2]
     = [[''a'', ''b'', ''c'', ''d'', ''e''], [''a'', ''b'', ''c'', ''d''], [''a'', ''b'', ''c''],
        [''a'', ''b'']]"
    by (simp add: mv_people_def mv_person_def)
  from one_group_per_size [of "''male''" "''source''" "[]" "([], 1)" "take 5 mv_people" "''slot [a]''"]
    1 2 3 4 show ?thesis unfolding 5 by blast
qed

text \<open>
  C1, as the claim states it, fails on five people of one bucket who share a slot: the run
  gives four groups and not one.
\<close>

theorem one_bucket_four_groups:
  "length (group_by (take 5 mv_people) []) = 1 \<and>
   map (\<lambda>g. length (g_members g)) (match_groups (take 5 mv_people)) = [5, 4, 3, 2]"
  by code_simp

section \<open>The move validator\<close>



lemma find_map_clear:
  "find (\<lambda>g. g_id g = i) (map clear_stored gs) = map_option clear_stored (find (\<lambda>g. g_id g = i) gs)"
  by (induction gs) (auto simp: clear_stored_def)

lemma validate_move_clear:
  "validate_move pid src dst (map clear_stored gs) people = validate_move pid src dst gs people"
  unfolding validate_move_def find_map_clear
  by (auto simp: clear_stored_def split: option.splits)

lemma mv_valid: "validate_move ''a'' ''G1'' ''G2'' mv_groups mv_people = Valid [''slot [a]'']"
  by code_simp

text \<open>
  C8. Two lists of groups that differ only in the stored lists of common slots get the same
  response, for every person, pair of group ids and list of people.
\<close>

theorem validate_move_ignores_stored_slots:
  assumes "map clear_stored groups = map clear_stored groups'"
  shows "validate_move pid src dst groups people = validate_move pid src dst groups' people"
  using assms validate_move_clear [of pid src dst groups people]
    validate_move_clear [of pid src dst groups' people] by simp

theorem validate_move_ignores_stored_slots_witness:
  "map clear_stored mv_groups
     = map clear_stored [mv_group ''G1'' [''a'', ''b'', ''c''] [], mv_group ''G2'' [''d'', ''e''] [''stale'']] \<and>
   validate_move ''a'' ''G1'' ''G2''
       [mv_group ''G1'' [''a'', ''b'', ''c''] [], mv_group ''G2'' [''d'', ''e''] [''stale'']] mv_people
     = Valid [''slot [a]'']"
proof -
  have h: "map clear_stored mv_groups
     = map clear_stored [mv_group ''G1'' [''a'', ''b'', ''c''] [], mv_group ''G2'' [''d'', ''e''] [''stale'']]"
    by (simp add: mv_groups_def mv_group_def clear_stored_def)
  from validate_move_ignores_stored_slots [OF h, of "''a''" "''G1''" "''G2''" mv_people] mv_valid h
  show ?thesis by simp
qed

text \<open>
  C9. Membership is not checked: there is a request in which the person is not a member of
  the source group and is already a member of the target group, and the move is valid.
\<close>

theorem validate_move_skips_membership:
  "\<exists>pid src dst groups people from_group to_group slots.
     find (\<lambda>g. g_id g = src) groups = Some from_group \<and>
     find (\<lambda>g. g_id g = dst) groups = Some to_group \<and>
     pid \<notin> set (g_members from_group) \<and> pid \<in> set (g_members to_group) \<and>
     validate_move pid src dst groups people = Valid slots"
proof -
  have "find (\<lambda>g. g_id g = ''G1'') mv_groups = Some (mv_group ''G1'' [''a'', ''b'', ''c''] [''slot [a]'']) \<and>
     find (\<lambda>g. g_id g = ''G2'') mv_groups = Some (mv_group ''G2'' [''d'', ''e''] [''slot [a]'']) \<and>
     ''e'' \<notin> set (g_members (mv_group ''G1'' [''a'', ''b'', ''c''] [''slot [a]''])) \<and>
     ''e'' \<in> set (g_members (mv_group ''G2'' [''d'', ''e''] [''slot [a]''])) \<and>
     validate_move ''e'' ''G1'' ''G2'' mv_groups mv_people = Valid [''slot [a]'']"
    by code_simp
  then show ?thesis by blast
qed

theorem validate_move_skips_membership_witness:
  "validate_move ''e'' ''G1'' ''G2'' mv_groups mv_people = Valid [''slot [a]''] \<and>
   (\<exists>pid src dst groups people slots. validate_move pid src dst groups people = Valid slots)"
proof -
  have "validate_move ''e'' ''G1'' ''G2'' mv_groups mv_people = Valid [''slot [a]'']"
    by code_simp
  with validate_move_skips_membership show ?thesis by blast
qed

section \<open>The normaliser and the upload\<close>

text \<open>
  C4. The claim is that a blank gender cell never aborts the batch. In the code the gender
  is the only field whose cell is stripped without \<^verbatim>\<open>str\<close> around it, and a blank cell is not
  a string: the second row of the table below raises, no person list is returned and the
  upload answers with status 500.
\<close>

theorem blank_gender_aborts:
  "make_person (availability_cols survey_columns) (survey_row ''bob'' NaN NaN) 1
     = Inl AttributeError \<and>
   process_csv_data blank_gender_frame = Inl AttributeError \<and>
   upload_file blank_gender_frame = Failed AttributeError"
  by code_simp

lemma make_people_length:
  "make_people cols rs acc = Inr people \<Longrightarrow> length people = length acc + length rs"
  by (induction rs arbitrary: acc) (auto split: sum.splits)

lemma missing_columns_Nil:
  "filter (\<lambda>col. col \<notin> set cols) required_columns = [] \<longleftrightarrow> set required_columns \<subseteq> set cols"
  by (auto simp: filter_empty_conv)

lemma match_groups_no_buckets: "group_by people [] = [] \<Longrightarrow> match_groups people = []"
  by (simp add: match_groups_def)

text \<open>
  C5, as the code has it. The upload answers "No valid people found in the data" exactly
  when the table has the required columns and no row. When the rows give a non-empty list
  of people, the upload succeeds with the groups of the run, and a list of people of whom
  none is eligible gives no group.
\<close>

theorem no_valid_people_iff_no_rows:
  "(upload_file df = Rejected ''No valid people found in the data'' \<longleftrightarrow>
      set required_columns \<subseteq> set (columns df) \<and> rows df = []) \<and>
   (set required_columns \<subseteq> set (columns df) \<and> process_csv_data df = Inr (groups, people) \<and>
    people \<noteq> [] \<longrightarrow>
      upload_file df = Success groups people (length people) (length groups)) \<and>
   (group_by people [] = [] \<longrightarrow> match_groups people = [])"
proof -
  have a: "upload_file df = Rejected ''No valid people found in the data'' \<longleftrightarrow>
      set required_columns \<subseteq> set (columns df) \<and> rows df = []"
  proof (cases "set required_columns \<subseteq> set (columns df)")
    case False
    then have "filter (\<lambda>col. col \<notin> set (columns df)) required_columns \<noteq> []"
      by (simp add: missing_columns_Nil)
    with False show ?thesis by (simp add: upload_file_def)
  next
    case True
    then have m: "filter (\<lambda>col. col \<notin> set (columns df)) required_columns = []"
      by (simp add: missing_columns_Nil)
    show ?thesis
    proof (cases "make_people (availability_cols (columns df)) (rows df) []")
      case (Inl e)
      then have "rows df \<noteq> []" by (cases "rows df") auto
      with Inl True m show ?thesis by (simp add: upload_file_def process_csv_data_def)
    next
      case (Inr ps)
      from make_people_length [OF Inr] have "ps = [] \<longleftrightarrow> rows df = []" by auto
      with Inr True m show ?thesis by (simp add: upload_file_def process_csv_data_def)
    qed
  qed
  have b: "upload_file df = Success groups people (length people) (length groups)"
    if "set required_columns \<subseteq> set (columns df)" "process_csv_data df = Inr (groups, people)"
      "people \<noteq> []"
    using that by (simp add: upload_file_def missing_columns_Nil)
  from a b match_groups_no_buckets show ?thesis by blast
qed

theorem no_valid_people_iff_no_rows_witness:
  "upload_file empty_frame = Rejected ''No valid people found in the data'' \<and>
   upload_file finished_frame = Success [] [finished_person] 1 0 \<and>
   match_groups [finished_person] = []"
proof -
  have c: "set required_columns \<subseteq> set (columns empty_frame)"
    "set required_columns \<subseteq> set (columns finished_frame)"
    by (simp_all add: required_columns_def empty_frame_def finished_frame_def survey_columns_def)
  have r: "rows empty_frame = []" by (simp add: empty_frame_def)
  have p: "process_csv_data finished_frame = Inr ([], [finished_person])" by code_simp
  have g: "group_by [finished_person] [] = []" by code_simp
  from no_valid_people_iff_no_rows [of empty_frame "[]" "[]"] c r
  have 1: "upload_file empty_frame = Rejected ''No valid people found in the data''" by blast
  from no_valid_people_iff_no_rows [of finished_frame "[]" "[finished_person]"] c p g
  have 2: "upload_file finished_frame = Success [] [finished_person] 1 0"
    "match_groups [finished_person] = []" by auto
  from 1 2 show ?thesis by blast
qed

text \<open>
  C5, as the claim states it, fails on a table whose only respondent has completed all five
  studies: nobody is eligible, and the upload succeeds with one person and no group.
\<close>

theorem no_eligible_people_succeeds:
  "process_csv_data finished_frame = Inr ([], [finished_person]) \<and>
   group_by [finished_person] [] = [] \<and>
   upload_file finished_frame = Success [] [finished_person] 1 0"
  by code_simp

end
